theory Spec2Isabelle
  imports Main "HOL-Library.Sublist"
begin

section \<open>Python values used by the embedding\<close>

text \<open>
  Strings are \<^typ>\<open>string\<close> (lists of 8-bit characters); the inventory only carries
  AWS identifiers, names and tags, and the embedding treats them as ASCII text.
  Exceptions are values of the type \<open>py_error\<close>; a function of the source that can
  raise returns \<open>py_error + 'a\<close>, with \<open>Inl\<close> for the exception.
\<close>

datatype py_error =
    AttributeError
  | TypeError
  | KeyError
  | ClientError string

text \<open>\<open>xs[:k]\<close>: a negative bound counts from the end of the sequence.\<close>

definition py_slice_to :: "'a list \<Rightarrow> int \<Rightarrow> 'a list" where
  "py_slice_to xs k =
     (if k < 0 then take (nat (int (length xs) + k)) xs else take (nat k) xs)"

text \<open>
  \<open>range(i, n, step)\<close> for a positive step, as the list of indices the \<open>for\<close> loop
  visits. (Python raises \<open>ValueError\<close> for a zero step; every call of the source passes
  the literal 100 or 10.)
\<close>

function py_range :: "nat \<Rightarrow> nat \<Rightarrow> nat \<Rightarrow> nat list" where
  "py_range i n step = (if 0 < step \<and> i < n then i # py_range (i + step) n step else [])"
  by pat_completeness auto
termination
  by (relation "measure (\<lambda>(i, n, step). n - i)") auto

declare py_range.simps [simp del]

section \<open>aws_clients/ecs.py: batched describe calls\<close>

text \<open>
  The boto3 client is a parameter: given the batch of identifiers of one call it either
  raises (\<open>Inl\<close>) or returns a response dictionary, of which the source reads one key
  with \<open>response.get(key, [])\<close>; \<open>None\<close> stands for a response without that key.
  The state threaded through the loop is the log of the batches sent so far and the
  accumulator \<open>all_clusters\<close> / \<open>all_services\<close> / \<open>all_tasks\<close>.
\<close>

type_synonym 'r ecs_api = "string list \<Rightarrow> py_error + 'r list option"

definition response_get :: "'r list option \<Rightarrow> 'r list" where
  "response_get resp = (case resp of None \<Rightarrow> [] | Some items \<Rightarrow> items)"

fun describe_loop ::
  "'r ecs_api \<Rightarrow> string list \<Rightarrow> nat \<Rightarrow> nat list \<Rightarrow> string list list \<Rightarrow> 'r list
     \<Rightarrow> string list list \<times> (py_error + 'r list)" where
  "describe_loop api arns cap [] log acc = (log, Inr acc)"
| "describe_loop api arns cap (i # is) log acc =
     (let batch = take cap (drop i arns) in
      case api batch of
        Inl e \<Rightarrow> (log @ [batch], Inl e)
      | Inr response \<Rightarrow> describe_loop api arns cap is (log @ [batch]) (acc @ response_get response))"

definition describe_clusters ::
  "'r ecs_api \<Rightarrow> string list \<Rightarrow> string list list \<times> (py_error + 'r list)" where
  "describe_clusters api cluster_arns =
     (if cluster_arns = [] then ([], Inr [])
      else describe_loop api cluster_arns 100 (py_range 0 (length cluster_arns) 100) [] [])"

definition describe_services ::
  "(string \<Rightarrow> 'r ecs_api) \<Rightarrow> string \<Rightarrow> string list \<Rightarrow> string list list \<times> (py_error + 'r list)" where
  "describe_services api cluster_arn service_arns =
     (if service_arns = [] then ([], Inr [])
      else describe_loop (api cluster_arn) service_arns 10 (py_range 0 (length service_arns) 10) [] [])"

definition describe_tasks ::
  "(string \<Rightarrow> 'r ecs_api) \<Rightarrow> string \<Rightarrow> string list \<Rightarrow> string list list \<times> (py_error + 'r list)" where
  "describe_tasks api cluster_arn task_arns =
     (if task_arns = [] then ([], Inr [])
      else describe_loop (api cluster_arn) task_arns 100 (py_range 0 (length task_arns) 100) [] [])"

section \<open>format_label (diagram_generator_detailed.py, diagram_generator_drawio.py)\<close>

definition format_label :: "string \<Rightarrow> int \<Rightarrow> int \<Rightarrow> string" where
  "format_label name max_len max_lines =
     (if int (length name) \<le> max_len then name
      else py_slice_to name (max_len - 2) @ ''..'')"

definition format_label_drawio :: "string \<Rightarrow> int \<Rightarrow> string" where
  "format_label_drawio name max_len =
     (if int (length name) \<le> max_len then name
      else py_slice_to name (max_len - 2) @ ''..'')"

section \<open>Python string operations\<close>

text \<open>\<open>str.lower()\<close> on ASCII text.\<close>

definition lower_char :: "char \<Rightarrow> char" where
  "lower_char c =
     (case map_of (zip ''ABCDEFGHIJKLMNOPQRSTUVWXYZ'' ''abcdefghijklmnopqrstuvwxyz'') c of
        None \<Rightarrow> c
      | Some d \<Rightarrow> d)"

definition py_lower :: "string \<Rightarrow> string" where
  "py_lower s = map lower_char s"

text \<open>\<open>s.replace(c, "")\<close> for a one-character \<open>c\<close>: every occurrence is removed.\<close>

definition py_remove_char :: "char \<Rightarrow> string \<Rightarrow> string" where
  "py_remove_char c s = filter (\<lambda>x. x \<noteq> c) s"

text \<open>\<open>s.replace(a, b)\<close> for one-character \<open>a\<close> and \<open>b\<close>.\<close>

definition py_replace_char :: "char \<Rightarrow> char \<Rightarrow> string \<Rightarrow> string" where
  "py_replace_char a b s = map (\<lambda>x. if x = a then b else x) s"

text \<open>\<open>p in s\<close> on strings: \<open>p\<close> occurs in \<open>s\<close> as a contiguous substring.\<close>

fun py_in :: "string \<Rightarrow> string \<Rightarrow> bool" where
  "py_in p [] = (p = [])"
| "py_in p (c # cs) = (prefix p (c # cs) \<or> py_in p cs)"

text \<open>\<open>sep.join(parts)\<close>.\<close>

fun py_join :: "string \<Rightarrow> string list \<Rightarrow> string" where
  "py_join sep [] = []"
| "py_join sep [x] = x"
| "py_join sep (x # y # ys) = x @ sep @ py_join sep (y # ys)"

text \<open>
  \<open>s.split()\<close> without arguments: the maximal runs of non-whitespace characters.
  \<open>cur\<close> is the token being read.
\<close>

definition is_space :: "char \<Rightarrow> bool" where
  "is_space c = (c \<in> set [CHR '' '', CHR 0x09, CHR 0x0A, CHR 0x0B, CHR 0x0C, CHR 0x0D,
                          CHR 0x1C, CHR 0x1D, CHR 0x1E, CHR 0x1F])"

fun split_ws :: "string \<Rightarrow> string \<Rightarrow> string list" where
  "split_ws cur [] = (if cur = [] then [] else [cur])"
| "split_ws cur (c # cs) =
     (if is_space c then (if cur = [] then split_ws [] cs else cur # split_ws [] cs)
      else split_ws (cur @ [c]) cs)"

definition py_split :: "string \<Rightarrow> string list" where
  "py_split s = split_ws [] s"

text \<open>\<open>str(n)\<close> for a non-negative integer.\<close>

definition digit_char :: "nat \<Rightarrow> char" where
  "digit_char d = ''0123456789'' ! d"

fun str_nat :: "nat \<Rightarrow> string" where
  "str_nat n = (if n < 10 then [digit_char n]
                else str_nat (n div 10) @ [digit_char (n mod 10)])"

declare str_nat.simps [simp del]

text \<open>\<open>d.get(key, [])\<close> on a dictionary of lists.\<close>

definition dict_get_list :: "('k \<rightharpoonup> 'v list) \<Rightarrow> 'k \<Rightarrow> 'v list" where
  "dict_get_list d k = (case d k of None \<Rightarrow> [] | Some vs \<Rightarrow> vs)"

section \<open>Inventory records read by the diagram generators\<close>

text \<open>
  The records carry the fields of the inventory dictionaries that the modelled code
  reads. A field is an \<open>option\<close> where the collector can store \<open>None\<close> under the key
  (\<open>_simplify_ec2_instances\<close> stores \<open>None\<close> for \<open>name\<close> when the instance has no
  \<open>Name\<close> tag, and \<open>i.get(...)\<close> results for \<open>state\<close>, \<open>vpc_id\<close> and
  \<open>private_ip\<close>); the keys themselves are always present, so the default of
  \<open>instance.get(key, default)\<close> is never used. Tag dictionaries are association lists
  in insertion order.
\<close>

record ec2_instance =
  instance_id :: string
  instance_type :: "string option"
  ec2_state :: "string option"
  ec2_vpc_id :: "string option"
  ec2_private_ip :: "string option"
  ec2_tags :: "(string \<times> string) list"
  ec2_name :: "string option"

record eks_node_group =
  nodegroup_name :: string

record eks_cluster =
  eks_cluster_name :: string
  eks_vpc_id :: "string option"
  node_groups :: "eks_node_group list"

record ecs_service =
  service_name :: string
  svc_subnets :: "string list"

record ecs_cluster =
  ecs_cluster_name :: string
  cluster_services :: "ecs_service list"

record subnet =
  subnet_id :: string

record vpc =
  vpc_id :: string
  vpc_name :: "string option"
  vpc_tags :: "(string \<times> string) list"
  vpc_subnets :: "subnet list"

record beanstalk_env =
  environment_name :: string
  application_name :: string

record pod =
  pod_name :: "string option"
  pod_namespace :: "string option"
  pod_status :: "string option"

record cluster_workloads =
  pods_by_node :: "(string \<rightharpoonup> pod list) option"

section \<open>categorize_ec2_instances\<close>

record ec2_categories =
  standalone :: "ec2_instance list"
  ecs :: "ec2_instance list"
  eks :: "ec2_instance list"

text \<open>The pattern sets are built element by element; their order plays no role in \<open>any\<close>.\<close>

definition eks_patterns_of :: "eks_cluster list \<Rightarrow> string list" where
  "eks_patterns_of eks_clusters =
     concat (map (\<lambda>cluster. py_lower (eks_cluster_name cluster)
                    # map (\<lambda>ng. py_lower (nodegroup_name ng)) (node_groups cluster))
             eks_clusters)"

definition ecs_patterns_of :: "ecs_cluster list \<Rightarrow> string list" where
  "ecs_patterns_of ecs_clusters = map (\<lambda>cluster. py_lower (ecs_cluster_name cluster)) ecs_clusters"

definition all_tags_of :: "(string \<times> string) list \<Rightarrow> string" where
  "all_tags_of tags = py_lower (py_join '' '' (map (\<lambda>(k, v). k @ ''='' @ v) tags))"

definition is_eks :: "string list \<Rightarrow> string \<Rightarrow> string \<Rightarrow> bool" where
  "is_eks eks_patterns name all_tags =
     (py_in ''kubernetes.io'' all_tags \<or>
      py_in ''eks'' all_tags \<or>
      py_in ''karpenter'' all_tags \<or>
      list_ex (\<lambda>p. py_in p name \<or> py_in p all_tags) (filter (\<lambda>p. p \<noteq> []) eks_patterns))"

definition is_ecs :: "string list \<Rightarrow> string \<Rightarrow> string \<Rightarrow> bool" where
  "is_ecs ecs_patterns name all_tags =
     (py_in ''ecs'' all_tags \<or>
      py_in ''ecs:cluster'' all_tags \<or>
      list_ex (\<lambda>p. py_in p name) (filter (\<lambda>p. p \<noteq> []) ecs_patterns))"

text \<open>
  The loop over \<open>ec2_instances\<close>. \<open>instance.get("name", "")\<close> yields the stored value,
  and \<open>.lower()\<close> on \<open>None\<close> raises \<open>AttributeError\<close>, which leaves the function.
\<close>

fun categorize_loop ::
  "string list \<Rightarrow> string list \<Rightarrow> ec2_instance list \<Rightarrow> ec2_categories
     \<Rightarrow> py_error + ec2_categories" where
  "categorize_loop eks_patterns ecs_patterns [] categorized = Inr categorized"
| "categorize_loop eks_patterns ecs_patterns (instance # rest) categorized =
     (if ec2_state instance \<noteq> Some ''running''
      then categorize_loop eks_patterns ecs_patterns rest categorized
      else case ec2_name instance of
        None \<Rightarrow> Inl AttributeError
      | Some n \<Rightarrow>
          (let name = py_lower n;
               all_tags = all_tags_of (ec2_tags instance)
           in if is_eks eks_patterns name all_tags
              then categorize_loop eks_patterns ecs_patterns rest
                     (categorized\<lparr>eks := eks categorized @ [instance]\<rparr>)
              else if is_ecs ecs_patterns name all_tags
              then categorize_loop eks_patterns ecs_patterns rest
                     (categorized\<lparr>ecs := ecs categorized @ [instance]\<rparr>)
              else categorize_loop eks_patterns ecs_patterns rest
                     (categorized\<lparr>standalone := standalone categorized @ [instance]\<rparr>)))"

definition categorize_ec2_instances ::
  "ec2_instance list \<Rightarrow> ecs_cluster list \<Rightarrow> eks_cluster list \<Rightarrow> py_error + ec2_categories" where
  "categorize_ec2_instances ec2_instances ecs_clusters eks_clusters =
     categorize_loop (eks_patterns_of eks_clusters) (ecs_patterns_of ecs_clusters) ec2_instances
       \<lparr>standalone = [], ecs = [], eks = []\<rparr>"

section \<open>generate_detailed_vpc_diagram: attribution of resources to a VPC\<close>

text \<open>
  \<open>get_resource_name\<close> on a VPC dictionary: the \<open>name\<close> field, or else the \<open>Name\<close>
  tag, cut to 35 characters; when both are missing or empty, the VPC id.
\<close>

definition py_or :: "string option \<Rightarrow> string option \<Rightarrow> string option" where
  "py_or a b = (case a of None \<Rightarrow> b | Some s \<Rightarrow> if s = [] then b else Some s)"

definition get_resource_name :: "vpc \<Rightarrow> string" where
  "get_resource_name resource =
     (case py_or (vpc_name resource) (map_of (vpc_tags resource) ''Name'') of
        None \<Rightarrow> take 35 (vpc_id resource)
      | Some name \<Rightarrow> if name \<noteq> [] then take 35 name else take 35 (vpc_id resource))"

text \<open>The name test of the ECS filter (lines 200 to 210).\<close>

definition ecs_name_lower :: "string \<Rightarrow> string" where
  "ecs_name_lower s = py_remove_char (CHR ''_'') (py_remove_char (CHR ''-'') (py_lower s))"

definition name_match :: "string \<Rightarrow> string \<Rightarrow> bool" where
  "name_match vpc_display_name cluster_name =
     (let vpc_name_lower = ecs_name_lower vpc_display_name;
          cluster_name_lower = ecs_name_lower cluster_name
      in py_in cluster_name_lower vpc_name_lower \<or>
         py_in vpc_name_lower cluster_name_lower \<or>
         list_ex (\<lambda>part. py_in part cluster_name_lower)
           (filter (\<lambda>part. 3 < length part) (py_split vpc_name_lower)))"

text \<open>The subnet test: a loop over the services that stops at the first hit.\<close>

fun subnet_match :: "string set \<Rightarrow> ecs_service list \<Rightarrow> bool" where
  "subnet_match vpc_subnet_ids [] = False"
| "subnet_match vpc_subnet_ids (svc # rest) =
     (if list_ex (\<lambda>s. s \<in> vpc_subnet_ids) (svc_subnets svc) then True
      else subnet_match vpc_subnet_ids rest)"

definition vpc_subnet_ids_of :: "vpc \<Rightarrow> string set" where
  "vpc_subnet_ids_of vpc_data = set (map subnet_id (vpc_subnets vpc_data))"

definition vpc_ecs_of :: "vpc \<Rightarrow> ecs_cluster list \<Rightarrow> ecs_cluster list" where
  "vpc_ecs_of vpc_data ecs_clusters =
     filter (\<lambda>cluster.
        name_match (get_resource_name vpc_data) (ecs_cluster_name cluster) \<or>
        subnet_match (vpc_subnet_ids_of vpc_data) (cluster_services cluster))
       ecs_clusters"

text \<open>The Elastic Beanstalk filter (lines 183 to 188): hyphens only, one direction.\<close>

definition beanstalk_match :: "string \<Rightarrow> beanstalk_env \<Rightarrow> bool" where
  "beanstalk_match vpc_display_name env =
     (let env_name = py_lower (environment_name env);
          app_name = py_lower (application_name env)
      in py_in (py_remove_char (CHR ''-'') (py_lower vpc_display_name))
               (py_remove_char (CHR ''-'') env_name) \<or>
         py_in (py_remove_char (CHR ''-'') (py_lower vpc_display_name))
               (py_remove_char (CHR ''-'') app_name))"

definition vpc_beanstalk_envs_of :: "vpc \<Rightarrow> beanstalk_env list \<Rightarrow> beanstalk_env list" where
  "vpc_beanstalk_envs_of vpc_data environments =
     filter (beanstalk_match (get_resource_name vpc_data)) environments"

text \<open>
  The name test of the same filter in \<open>generate_drawio_diagram\<close>
  (diagram_generator_drawio.py, lines 270 to 274): spaces are removed as well, and there
  is no token rule.
\<close>

definition drawio_name_lower :: "string \<Rightarrow> string" where
  "drawio_name_lower s =
     py_remove_char (CHR '' '') (py_remove_char (CHR ''_'') (py_remove_char (CHR ''-'') (py_lower s)))"

definition drawio_name_match :: "string \<Rightarrow> string \<Rightarrow> bool" where
  "drawio_name_match vpc_display_name cluster_name =
     (let vpc_name_lower = drawio_name_lower vpc_display_name;
          cluster_name_lower = drawio_name_lower cluster_name
      in py_in cluster_name_lower vpc_name_lower \<or> py_in vpc_name_lower cluster_name_lower)"

text \<open>
  The matching rule as the specification words it, for comparison with the code:
  both names lower-cased and stripped of hyphens, underscores and spaces; a match when
  one normalised name occurs in the other, or when a whitespace-delimited token of the
  VPC name longer than 3 characters occurs in the candidate name.
\<close>

definition spec_normalize :: "string \<Rightarrow> string" where
  "spec_normalize s =
     filter (\<lambda>c. c \<noteq> CHR ''-'' \<and> c \<noteq> CHR ''_'' \<and> c \<noteq> CHR '' '') (py_lower s)"

definition spec_fuzzy_match :: "string \<Rightarrow> string \<Rightarrow> bool" where
  "spec_fuzzy_match vpc_display_name candidate =
     (py_in (spec_normalize candidate) (spec_normalize vpc_display_name) \<or>
      py_in (spec_normalize vpc_display_name) (spec_normalize candidate) \<or>
      list_ex (\<lambda>part. py_in part (spec_normalize candidate))
        (filter (\<lambda>part. 3 < length part) (py_split (py_lower vpc_display_name))))"

section \<open>generate_detailed_vpc_diagram: pods of an EKS worker instance\<close>

definition get_pods_for_cluster ::
  "(string \<rightharpoonup> cluster_workloads) option \<Rightarrow> string \<Rightarrow> (string \<rightharpoonup> pod list)" where
  "get_pods_for_cluster k8s_workloads cluster_name =
     (case k8s_workloads of
        None \<Rightarrow> Map.empty
      | Some workloads \<Rightarrow>
          (case workloads cluster_name of
             None \<Rightarrow> Map.empty
           | Some cluster_data \<Rightarrow>
               (case pods_by_node cluster_data of None \<Rightarrow> Map.empty | Some m \<Rightarrow> m)))"

definition private_dns_of :: "string \<Rightarrow> string \<Rightarrow> string" where
  "private_dns_of private_ip region =
     ''ip-'' @ py_replace_char (CHR ''.'') (CHR ''-'') private_ip @ ''.'' @ region
       @ ''.compute.internal''"

text \<open>
  The count of pods of a node group (lines 348 to 351). \<open>inst.get('private_ip', '')\<close>
  yields the stored value; \<open>.replace\<close> on \<open>None\<close> raises \<open>AttributeError\<close>.
\<close>

fun total_pods_loop ::
  "string \<Rightarrow> (string \<rightharpoonup> pod list) \<Rightarrow> ec2_instance list \<Rightarrow> nat \<Rightarrow> py_error + nat" where
  "total_pods_loop region pbn [] total_pods = Inr total_pods"
| "total_pods_loop region pbn (inst # rest) total_pods =
     (case ec2_private_ip inst of
        None \<Rightarrow> Inl AttributeError
      | Some ip \<Rightarrow>
          total_pods_loop region pbn rest
            (total_pods + length (dict_get_list pbn (private_dns_of ip region))))"

definition system_namespaces :: "string option list" where
  "system_namespaces = [Some ''kube-system'', Some ''amazon-cloudwatch'', Some ''amazon-guardduty'']"

definition app_pods_of :: "pod list \<Rightarrow> pod list" where
  "app_pods_of node_pods =
     (let running_pods = filter (\<lambda>p. pod_status p = Some ''Running'') node_pods
      in filter (\<lambda>p. pod_namespace p \<notin> set system_namespaces) running_pods)"

text \<open>
  One worker instance of a node group (lines 361 to 371): the label of its cluster and the
  pods shown in it. \<open>inst.get("name", ...)\<close> yields the stored value, and
  \<open>format_label\<close> on \<open>None\<close> raises \<open>TypeError\<close> at \<open>len(name)\<close>.
\<close>

definition render_node ::
  "string \<Rightarrow> (string \<rightharpoonup> pod list) \<Rightarrow> ec2_instance \<Rightarrow> py_error + (string \<times> pod list)" where
  "render_node region pbn inst =
     (case ec2_name inst of
        None \<Rightarrow> Inl TypeError
      | Some n \<Rightarrow>
          (let inst_name = format_label n 15 2 in
           case ec2_private_ip inst of
             None \<Rightarrow> Inl AttributeError
           | Some private_ip \<Rightarrow>
               (let private_dns = private_dns_of private_ip region;
                    node_pods = dict_get_list pbn private_dns;
                    app_pods = app_pods_of node_pods;
                    node_label = inst_name @ [CHR 0x0A] @ private_ip @ [CHR 0x0A]
                                   @ str_nat (length app_pods) @ '' pods''
                in Inr (node_label, app_pods))))"

section \<open>main.py: the inventory orchestrator\<close>

text \<open>
  JSON-like values of the inventory document; a region entry is a dictionary from keys to
  such values.
\<close>

datatype json =
    JNull
  | JBool bool
  | JInt int
  | JStr string
  | JList "json list"
  | JDict "(string \<times> json) list"

type_synonym region_data = "string \<rightharpoonup> json"

text \<open>
  What the collectors of one region return: each field is the outcome of the body of one
  \<open>try\<close> block (constructing the collector, collecting, and \<open>to_dict\<close> where the source
  calls it), \<open>Inl\<close> when it raises.
\<close>

record collectors =
  vpc_collect :: "py_error + json"
  ec2_collect :: "py_error + json"
  ecs_collect :: "py_error + json"
  eks_collect :: "py_error + json"
  rds_collect :: "py_error + json"
  elasticache_collect :: "py_error + json"
  elb_collect :: "py_error + json"
  elasticbeanstalk_collect :: "py_error + json"
  redshift_collect :: "py_error + json"

definition empty_lists :: "string list \<Rightarrow> json" where
  "empty_lists keys = JDict (map (\<lambda>k. (k, JList [])) keys)"

definition collect_vpc_ec2 :: "collectors \<Rightarrow> bool \<Rightarrow> string list \<Rightarrow> region_data \<Rightarrow> region_data" where
  "collect_vpc_ec2 c collect_all services rd =
     (if collect_all \<or> ''vpc'' \<in> set services \<or> ''ec2'' \<in> set services then
        (case vpc_collect c of
           Inl e \<Rightarrow> rd(''vpcs'' \<mapsto> JList [], ''ec2_instances'' \<mapsto> JList [])
         | Inr vpcs \<Rightarrow>
             (if collect_all \<or> ''ec2'' \<in> set services then
                (case ec2_collect c of
                   Inl e \<Rightarrow> rd(''vpcs'' \<mapsto> JList [], ''ec2_instances'' \<mapsto> JList [])
                 | Inr instances \<Rightarrow> rd(''vpcs'' \<mapsto> vpcs, ''ec2_instances'' \<mapsto> instances))
              else rd(''vpcs'' \<mapsto> vpcs)))
      else rd)"

text \<open>One \<open>try\<close>/\<open>except\<close> block that stores a single key.\<close>

definition collect_one ::
  "bool \<Rightarrow> string \<Rightarrow> py_error + json \<Rightarrow> json \<Rightarrow> region_data \<Rightarrow> region_data" where
  "collect_one selected key outcome dflt rd =
     (if selected then
        (case outcome of Inl e \<Rightarrow> rd(key \<mapsto> dflt) | Inr v \<Rightarrow> rd(key \<mapsto> v))
      else rd)"

definition collect_region_resources ::
  "collectors \<Rightarrow> string \<Rightarrow> string \<Rightarrow> string list \<Rightarrow> region_data" where
  "collect_region_resources c region collected_at services =
     (let region_data = [''region'' \<mapsto> JStr region, ''collected_at'' \<mapsto> JStr collected_at];
          collect_all = (''all'' \<in> set services);
          region_data = collect_vpc_ec2 c collect_all services region_data;
          region_data = collect_one (collect_all \<or> ''ecs'' \<in> set services) ''ecs_clusters''
                          (ecs_collect c) (JList []) region_data;
          region_data = collect_one (collect_all \<or> ''eks'' \<in> set services) ''eks_clusters''
                          (eks_collect c) (JList []) region_data;
          region_data = collect_one (collect_all \<or> ''rds'' \<in> set services) ''rds''
                          (rds_collect c) (empty_lists [''instances'', ''clusters'']) region_data;
          region_data = collect_one (collect_all \<or> ''elasticache'' \<in> set services) ''elasticache''
                          (elasticache_collect c)
                          (empty_lists [''clusters'', ''replication_groups'', ''serverless_caches''])
                          region_data;
          region_data = collect_one (collect_all \<or> ''elb'' \<in> set services) ''load_balancers''
                          (elb_collect c)
                          (empty_lists [''application_load_balancers'', ''network_load_balancers'',
                                        ''classic_load_balancers'', ''target_groups''])
                          region_data;
          region_data = collect_one (collect_all \<or> ''elasticbeanstalk'' \<in> set services)
                          ''elasticbeanstalk'' (elasticbeanstalk_collect c)
                          (empty_lists [''applications'', ''environments'']) region_data;
          region_data = collect_one (collect_all \<or> ''redshift'' \<in> set services) ''redshift''
                          (redshift_collect c)
                          (empty_lists [''clusters'', ''serverless_workgroups'',
                                        ''serverless_namespaces''])
                          region_data
      in region_data)"

text \<open>
  The region loop of \<open>main\<close>. \<open>region_session\<close> is the outcome of the \<open>try\<close> body up to the
  call of \<open>collect_region_resources\<close>: creating the session of the region either raises or
  gives the collectors their answers. \<open>error_str\<close> is \<open>str(e)\<close>.
\<close>

definition error_str :: "py_error \<Rightarrow> string" where
  "error_str e =
     (case e of
        AttributeError \<Rightarrow> ''AttributeError''
      | TypeError \<Rightarrow> ''TypeError''
      | KeyError \<Rightarrow> ''KeyError''
      | ClientError msg \<Rightarrow> msg)"

definition region_entry ::
  "(string \<Rightarrow> py_error + collectors) \<Rightarrow> string \<Rightarrow> string list \<Rightarrow> string \<Rightarrow> region_data" where
  "region_entry region_session collected_at services region =
     (case region_session region of
        Inl e \<Rightarrow> [''region'' \<mapsto> JStr region, ''error'' \<mapsto> JStr (error_str e)]
      | Inr c \<Rightarrow> collect_region_resources c region collected_at services)"

fun main_region_loop ::
  "(string \<Rightarrow> py_error + collectors) \<Rightarrow> string \<Rightarrow> string list \<Rightarrow> string list
     \<Rightarrow> (string \<rightharpoonup> region_data) \<Rightarrow> (string \<rightharpoonup> region_data)" where
  "main_region_loop region_session collected_at services [] regions = regions"
| "main_region_loop region_session collected_at services (region # rest) regions =
     main_region_loop region_session collected_at services rest
       (regions(region \<mapsto> region_entry region_session collected_at services region))"

definition resource_keys :: "string set" where
  "resource_keys = {''vpcs'', ''ec2_instances'', ''ecs_clusters'', ''eks_clusters'', ''rds'',
                    ''elasticache'', ''load_balancers'', ''elasticbeanstalk'', ''redshift''}"

section \<open>The consumers of the inventory document\<close>

text \<open>
  Each consumer walks \<open>inventory["regions"].items()\<close> and leaves an entry with an
  \<open>error\<close> key by \<open>continue\<close> before reading anything else of it. The functions return,
  for every entry that is not skipped, the region name and the values read with
  \<open>region_data.get(key, default)\<close>. (The \<open>--vpc\<close> filter of the per-VPC generators only
  drops further regions after the \<open>vpcs\<close> key was read and is left out.)
\<close>

definition region_get :: "region_data \<Rightarrow> string \<Rightarrow> json \<Rightarrow> json" where
  "region_get region_data key dflt = (case region_data key of None \<Rightarrow> dflt | Some v \<Rightarrow> v)"

definition read_keys :: "region_data \<Rightarrow> (string \<times> json) list \<Rightarrow> (string \<times> json) list" where
  "read_keys region_data keys = map (\<lambda>(k, dflt). (k, region_get region_data k dflt)) keys"

definition overview_keys :: "(string \<times> json) list" where
  "overview_keys = [(''vpcs'', JList []), (''ec2_instances'', JList []), (''ecs_clusters'', JList []),
                    (''eks_clusters'', JList []), (''rds'', JDict []), (''elasticache'', JDict []),
                    (''load_balancers'', JDict [])]"

definition detailed_keys :: "(string \<times> json) list" where
  "detailed_keys = overview_keys @ [(''elasticbeanstalk'', JDict []), (''redshift'', JDict [])]"

fun consume_regions ::
  "(string \<times> json) list \<Rightarrow> (string \<times> region_data) list \<Rightarrow> (string \<times> (string \<times> json) list) list" where
  "consume_regions keys [] = []"
| "consume_regions keys ((region_name, region_data) # rest) =
     (if region_data ''error'' \<noteq> None then consume_regions keys rest
      else (region_name, read_keys region_data keys) # consume_regions keys rest)"

definition generate_overview_diagram_regions where
  "generate_overview_diagram_regions items = consume_regions overview_keys items"

definition diagram_generator_main_regions where
  "diagram_generator_main_regions items = consume_regions overview_keys items"

definition diagram_generator_detailed_main_regions where
  "diagram_generator_detailed_main_regions items = consume_regions detailed_keys items"

definition diagram_generator_drawio_main_regions where
  "diagram_generator_drawio_main_regions items = consume_regions detailed_keys items"

definition get_eks_clusters_from_inventory_regions where
  "get_eks_clusters_from_inventory_regions items =
     consume_regions [(''eks_clusters'', JList [])] items"

section \<open>Notions used in the statements\<close>

text \<open>\<open>collect_all or "x" in services\<close>, the test that guards each block of the orchestrator.\<close>

definition service_selected :: "string list \<Rightarrow> string \<Rightarrow> bool" where
  "service_selected services s = (''all'' \<in> set services \<or> s \<in> set services)"

text \<open>
  The two classification signals of \<open>categorize_ec2_instances\<close> as predicates on an
  instance (for an instance that has a name).
\<close>

definition is_running :: "ec2_instance \<Rightarrow> bool" where
  "is_running i = (ec2_state i = Some ''running'')"

definition eks_signal :: "string list \<Rightarrow> ec2_instance \<Rightarrow> bool" where
  "eks_signal ep i =
     (case ec2_name i of None \<Rightarrow> False
      | Some n \<Rightarrow> is_eks ep (py_lower n) (all_tags_of (ec2_tags i)))"

definition ecs_signal :: "string list \<Rightarrow> ec2_instance \<Rightarrow> bool" where
  "ecs_signal cp i =
     (case ec2_name i of None \<Rightarrow> False
      | Some n \<Rightarrow> is_ecs cp (py_lower n) (all_tags_of (ec2_tags i)))"

section \<open>Example inputs\<close>

definition example_worker :: ec2_instance where
  "example_worker = \<lparr>instance_id = ''i-0abc'', instance_type = Some ''m5.large'',
       ec2_state = Some ''running'', ec2_vpc_id = Some ''vpc-1'',
       ec2_private_ip = Some ''10.0.1.5'',
       ec2_tags = [(''eks:cluster-name'', ''prod''), (''eks:nodegroup-name'', ''ng1'')],
       ec2_name = Some ''worker''\<rparr>"


definition example_spaced_vpc :: vpc where
  "example_spaced_vpc = \<lparr>vpc_id = ''vpc-1'', vpc_name = Some ''my vpc'', vpc_tags = [],
       vpc_subnets = [\<lparr>subnet_id = ''subnet-a''\<rparr>]\<rparr>"

definition example_pods_by_node :: "string \<rightharpoonup> pod list" where
  "example_pods_by_node =
     [''node-a'' \<mapsto> [\<lparr>pod_name = Some ''web'', pod_namespace = Some ''default'',
                        pod_status = Some ''Running''\<rparr>]]"

definition example_collectors :: collectors where
  "example_collectors =
     \<lparr>vpc_collect = Inr (JList []), ec2_collect = Inr (JList []),
      ecs_collect = Inl (ClientError ''AccessDenied''), eks_collect = Inr (JList []),
      rds_collect = Inl (ClientError ''Throttling''), elasticache_collect = Inr (JDict []),
      elb_collect = Inr (JDict []), elasticbeanstalk_collect = Inr (JDict []),
      redshift_collect = Inr (JDict [])\<rparr>"

definition example_sessions :: "string \<Rightarrow> py_error + collectors" where
  "example_sessions region =
     (if region = ''eu-west-1'' then Inl (ClientError ''InvalidClientTokenId'')
      else Inr example_collectors)"

section \<open>Batching: proofs\<close>













section \<open>Claims about the ECS client\<close>



text \<open>
  C9. On the empty identifier list each of the three operations returns the empty list
  at once, and the log of provider calls is empty.
\<close>

theorem ecs_describe_empty:
  "describe_clusters api [] = ([], Inr []) \<and>
   describe_services api2 c [] = ([], Inr []) \<and>
   describe_tasks api2 c [] = ([], Inr [])"
  by (simp add: describe_clusters_def describe_services_def describe_tasks_def)

section \<open>Claims about labels\<close>

text \<open>
  C10. For \<open>max_len \<ge> 2\<close>, \<open>format_label\<close> (in both generators) returns the name
  unchanged when it has at most \<open>max_len\<close> characters; otherwise the result is the first
  \<open>max_len - 2\<close> characters of the name followed by two dots, of length exactly
  \<open>max_len\<close>. In both cases the label has at most \<open>max_len\<close> characters.
\<close>

theorem format_label_length:
  assumes "2 \<le> max_len"
  shows
    "(int (length name) \<le> max_len \<longrightarrow>
        format_label name max_len max_lines = name \<and> format_label_drawio name max_len = name) \<and>
     (max_len < int (length name) \<longrightarrow>
        format_label name max_len max_lines = take (nat (max_len - 2)) name @ ''..'' \<and>
        format_label_drawio name max_len = take (nat (max_len - 2)) name @ ''..'' \<and>
        prefix (take (nat (max_len - 2)) (format_label name max_len max_lines)) name \<and>
        suffix ''..'' (format_label name max_len max_lines) \<and>
        int (length (format_label name max_len max_lines)) = max_len \<and>
        int (length (format_label_drawio name max_len)) = max_len) \<and>
     int (length (format_label name max_len max_lines)) \<le> max_len \<and>
     int (length (format_label_drawio name max_len)) \<le> max_len"
proof -
  have short: "int (length name) \<le> max_len \<Longrightarrow>
      format_label name max_len max_lines = name \<and> format_label_drawio name max_len = name"
    by (simp add: format_label_def format_label_drawio_def)
  have long1: "max_len < int (length name) \<Longrightarrow>
      format_label name max_len max_lines = take (nat (max_len - 2)) name @ ''..''"
    using assms by (simp add: format_label_def py_slice_to_def)
  have long2: "max_len < int (length name) \<Longrightarrow>
      format_label_drawio name max_len = take (nat (max_len - 2)) name @ ''..''"
    using assms by (simp add: format_label_drawio_def py_slice_to_def)
  have len: "max_len < int (length name) \<Longrightarrow>
      int (length (take (nat (max_len - 2)) name @ ''..'')) = max_len"
    using assms by (simp add: min_def)
  have pre: "max_len < int (length name) \<Longrightarrow>
      prefix (take (nat (max_len - 2)) (take (nat (max_len - 2)) name @ ''..'')) name"
    using assms by (simp add: take_is_prefix)
  have suf: "suffix ''..'' (take (nat (max_len - 2)) name @ ''..'')"
    by (rule suffix_appendI) simp
  show ?thesis
  proof (cases "int (length name) \<le> max_len")
    case True
    with short show ?thesis by simp
  next
    case False
    then have lt: "max_len < int (length name)" by simp
    from long1 [OF lt] long2 [OF lt] len [OF lt] pre [OF lt] suf lt show ?thesis
      by simp
  qed
qed

theorem format_label_length_witness:
  "(2::int) \<le> 6 \<and> int (length ''abc'') \<le> 6 \<and> 6 < int (length ''load-balancer'') \<and>
   format_label ''abc'' 6 2 = ''abc'' \<and>
   format_label ''load-balancer'' 6 2 = ''load..'' \<and>
   format_label_drawio ''load-balancer'' 6 = ''load..''"
  using format_label_length [of 6 "''abc''" 2] format_label_length [of 6 "''load-balancer''" 2]
  by simp

section \<open>Strings: proofs\<close>

lemma py_in_sublist: "py_in p s \<longleftrightarrow> sublist p s"
  by (induction s) (auto simp: sublist_Cons_right)

lemma py_join_sublist: "x \<in> set xs \<Longrightarrow> sublist x (py_join sep xs)"
proof (induction sep xs rule: py_join.induct)
  case (1 sep)
  then show ?case by simp
next
  case (2 sep y)
  then show ?case by simp
next
  case (3 sep y z zs)
  show ?case
  proof (cases "x = y")
    case True
    then show ?thesis by simp
  next
    case False
    with 3 have "sublist x (py_join sep (z # zs))" by simp
    then obtain ps ss where "py_join sep (z # zs) = ps @ x @ ss"
      by (auto simp: sublist_def)
    then have "py_join sep (y # z # zs) = (y @ sep @ ps) @ x @ ss" by simp
    then show ?thesis unfolding sublist_def by blast
  qed
qed

lemma sublist_trans: "sublist xs ys \<Longrightarrow> sublist ys zs \<Longrightarrow> sublist xs zs"
  by (rule sublist_order.order.trans)

lemma lower_eks: "py_lower ''eks'' = ''eks''"
  by (simp add: py_lower_def lower_char_def)

lemma eks_tag_in_all_tags:
  assumes "(''eks:cluster-name'', v) \<in> set tags"
  shows "py_in ''eks'' (all_tags_of tags)"
proof -
  have "''eks:cluster-name'' @ ''='' @ v \<in> set (map (\<lambda>(k, v). k @ ''='' @ v) tags)"
    using assms by force
  then have "sublist (''eks:cluster-name'' @ ''='' @ v)
               (py_join '' '' (map (\<lambda>(k, v). k @ ''='' @ v) tags))"
    by (rule py_join_sublist)
  moreover have "sublist ''eks'' (''eks:cluster-name'' @ ''='' @ v)"
    by (rule prefix_imp_sublist) simp
  ultimately have "sublist ''eks'' (py_join '' '' (map (\<lambda>(k, v). k @ ''='' @ v) tags))"
    by (blast intro: sublist_trans)
  then have "sublist (map lower_char ''eks'')
               (map lower_char (py_join '' '' (map (\<lambda>(k, v). k @ ''='' @ v) tags)))"
    by (rule map_mono_sublist)
  then show ?thesis
    using lower_eks by (simp add: py_in_sublist all_tags_of_def py_lower_def)
qed

lemma split_ws_tokens:
  assumes "\<forall>c \<in> set cur. \<not> is_space c" and "part \<in> set (split_ws cur s)"
  shows "part \<noteq> [] \<and> (\<forall>c \<in> set part. \<not> is_space c)"
  using assms
proof (induction s arbitrary: cur)
  case Nil
  then show ?case by (auto split: if_splits)
next
  case (Cons c s)
  show ?case
  proof (cases "is_space c")
    case True
    with Cons.prems have "part = cur \<and> cur \<noteq> [] \<or> part \<in> set (split_ws [] s)"
      by (auto split: if_splits)
    then show ?thesis
    proof
      assume "part = cur \<and> cur \<noteq> []"
      with Cons.prems(1) show ?thesis by simp
    next
      assume "part \<in> set (split_ws [] s)"
      then show ?thesis using Cons.IH [of "[]"] by simp
    qed
  next
    case False
    with Cons.prems have "part \<in> set (split_ws (cur @ [c]) s)" by simp
    moreover from False Cons.prems(1) have "\<forall>x \<in> set (cur @ [c]). \<not> is_space x" by simp
    ultimately show ?thesis using Cons.IH [of "cur @ [c]"] by blast
  qed
qed

lemma py_split_tokens:
  "part \<in> set (py_split s) \<Longrightarrow> part \<noteq> [] \<and> (\<forall>c \<in> set part. \<not> is_space c)"
  unfolding py_split_def using split_ws_tokens [of "[]" part s] by simp

section \<open>Categorisation of EC2 instances\<close>

lemma categorize_loop_named:
  assumes "\<forall>i \<in> set xs. is_running i \<longrightarrow> ec2_name i \<noteq> None"
  shows "categorize_loop ep cp xs acc =
     Inr \<lparr>standalone = standalone acc @
             filter (\<lambda>i. is_running i \<and> \<not> eks_signal ep i \<and> \<not> ecs_signal cp i) xs,
          ecs = ecs acc @ filter (\<lambda>i. is_running i \<and> \<not> eks_signal ep i \<and> ecs_signal cp i) xs,
          eks = eks acc @ filter (\<lambda>i. is_running i \<and> eks_signal ep i) xs\<rparr>"
  using assms
proof (induction xs arbitrary: acc)
  case Nil
  then show ?case by simp
next
  case (Cons i xs)
  then have IH: "\<And>acc. categorize_loop ep cp xs acc =
     Inr \<lparr>standalone = standalone acc @
             filter (\<lambda>i. is_running i \<and> \<not> eks_signal ep i \<and> \<not> ecs_signal cp i) xs,
          ecs = ecs acc @ filter (\<lambda>i. is_running i \<and> \<not> eks_signal ep i \<and> ecs_signal cp i) xs,
          eks = eks acc @ filter (\<lambda>i. is_running i \<and> eks_signal ep i) xs\<rparr>"
    by simp
  show ?case
  proof (cases "is_running i")
    case False
    then show ?thesis by (simp add: IH is_running_def)
  next
    case True
    with Cons.prems obtain n where n: "ec2_name i = Some n" by auto
    from True have r: "ec2_state i = Some ''running''" by (simp add: is_running_def)
    show ?thesis
      using True n r by (simp add: IH eks_signal_def ecs_signal_def Let_def)
  qed
qed

text \<open>
  On a list whose running instances all carry a name, the function returns three
  buckets that are pairwise disjoint, that together hold exactly the running instances,
  that give precedence to the EKS signal, and that put every running instance with an
  \<open>eks:cluster-name\<close> tag into the \<open>eks\<close> bucket.
\<close>

lemma categorize_named_partition:
  assumes "\<forall>i \<in> set xs. is_running i \<longrightarrow> ec2_name i \<noteq> None"
  shows "\<exists>cats. categorize_ec2_instances xs ecs_clusters eks_clusters = Inr cats \<and>
     set (standalone cats) \<inter> set (ecs cats) = {} \<and>
     set (standalone cats) \<inter> set (eks cats) = {} \<and>
     set (ecs cats) \<inter> set (eks cats) = {} \<and>
     set (standalone cats) \<union> set (ecs cats) \<union> set (eks cats) = {i \<in> set xs. is_running i} \<and>
     (\<forall>i \<in> set xs. is_running i \<and> eks_signal (eks_patterns_of eks_clusters) i \<longrightarrow>
        i \<in> set (eks cats)) \<and>
     (\<forall>i \<in> set xs. is_running i \<and> (\<exists>v. (''eks:cluster-name'', v) \<in> set (ec2_tags i)) \<longrightarrow>
        i \<in> set (eks cats))"
proof -
  let ?ep = "eks_patterns_of eks_clusters" and ?cp = "ecs_patterns_of ecs_clusters"
  let ?cats = "\<lparr>standalone = filter (\<lambda>i. is_running i \<and> \<not> eks_signal ?ep i \<and> \<not> ecs_signal ?cp i) xs,
          ecs = filter (\<lambda>i. is_running i \<and> \<not> eks_signal ?ep i \<and> ecs_signal ?cp i) xs,
          eks = filter (\<lambda>i. is_running i \<and> eks_signal ?ep i) xs\<rparr>"
  have r: "categorize_ec2_instances xs ecs_clusters eks_clusters = Inr ?cats"
    using categorize_loop_named [OF assms, of ?ep ?cp "\<lparr>standalone = [], ecs = [], eks = []\<rparr>"]
    by (simp add: categorize_ec2_instances_def)
  have tag: "eks_signal ?ep i"
    if "i \<in> set xs" "is_running i" "(''eks:cluster-name'', v) \<in> set (ec2_tags i)" for i v
  proof -
    from that assms obtain n where "ec2_name i = Some n" by auto
    with eks_tag_in_all_tags [OF that(3)] show ?thesis
      by (simp add: eks_signal_def is_eks_def)
  qed
  have d1: "set (standalone ?cats) \<inter> set (ecs ?cats) = {}" by auto
  have d2: "set (standalone ?cats) \<inter> set (eks ?cats) = {}" by auto
  have d3: "set (ecs ?cats) \<inter> set (eks ?cats) = {}" by auto
  have u: "set (standalone ?cats) \<union> set (ecs ?cats) \<union> set (eks ?cats) = {i \<in> set xs. is_running i}"
    by auto
  have p: "\<forall>i \<in> set xs. is_running i \<and> eks_signal ?ep i \<longrightarrow> i \<in> set (eks ?cats)" by simp
  have t: "\<forall>i \<in> set xs. is_running i \<and> (\<exists>v. (''eks:cluster-name'', v) \<in> set (ec2_tags i)) \<longrightarrow>
        i \<in> set (eks ?cats)"
    using tag by auto
  from r d1 d2 d3 u p t show ?thesis by blast
qed

text \<open>
  C3. The claim fails on an instance that the collector itself produces: a running
  instance without a \<open>Name\<close> tag is stored with \<open>name = None\<close>, and
  \<open>categorize_ec2_instances\<close> raises \<open>AttributeError\<close> on it instead of placing it in
  a bucket. The instance below is the one of the specification's scenario (tags
  \<open>eks:cluster-name = prod\<close>, \<open>eks:nodegroup-name = ng1\<close>, running, no name).
\<close>

theorem categorize_unnamed_instance_raises:
  "categorize_ec2_instances
     [\<lparr>instance_id = ''i-0abc'', instance_type = Some ''m5.large'', ec2_state = Some ''running'',
       ec2_vpc_id = Some ''vpc-1'', ec2_private_ip = Some ''10.0.0.5'',
       ec2_tags = [(''eks:cluster-name'', ''prod''), (''eks:nodegroup-name'', ''ng1'')],
       ec2_name = None\<rparr>] [] [] = Inl AttributeError"
  by (simp add: categorize_ec2_instances_def)

section \<open>Attribution of resources to a VPC\<close>

text \<open>
  C4. The claim fails in the detailed generator. The VPC name \<open>my vpc\<close> and the ECS
  cluster name \<open>my-vpc\<close> normalise to the same string once hyphens, underscores and
  spaces are stripped, so the rule of the claim declares a match, and so does the same
  filter of the draw.io generator; the detailed generator leaves the space in the VPC
  name, finds no match and leaves the cluster out of the VPC. Its Beanstalk filter
  strips hyphens only, so the VPC name \<open>prod_vpc\<close> does not match the environment
  \<open>prodvpc-env\<close>, which the ECS test of the same function does match.
\<close>

theorem name_match_detailed_keeps_spaces:
  "spec_fuzzy_match ''my vpc'' ''my-vpc'' \<and>
   drawio_name_match ''my vpc'' ''my-vpc'' \<and>
   \<not> name_match ''my vpc'' ''my-vpc'' \<and>
   vpc_ecs_of example_spaced_vpc [\<lparr>ecs_cluster_name = ''my-vpc'', cluster_services = []\<rparr>] = [] \<and>
   spec_fuzzy_match ''prod_vpc'' ''prodvpc-env'' \<and>
   name_match ''prod_vpc'' ''prodvpc-env'' \<and>
   \<not> beanstalk_match ''prod_vpc''
       \<lparr>environment_name = ''prodvpc-env'', application_name = ''shop''\<rparr>"
proof -
  have a: "spec_fuzzy_match ''my vpc'' ''my-vpc''"
    by (simp add: spec_fuzzy_match_def spec_normalize_def py_lower_def lower_char_def)
  have b: "drawio_name_match ''my vpc'' ''my-vpc''"
    by (simp add: drawio_name_match_def drawio_name_lower_def py_remove_char_def py_lower_def
          lower_char_def)
  have c: "\<not> name_match ''my vpc'' ''my-vpc''"
    by (simp add: name_match_def ecs_name_lower_def py_remove_char_def py_lower_def
          lower_char_def py_split_def is_space_def)
  have n: "get_resource_name example_spaced_vpc = ''my vpc''"
    by (simp add: get_resource_name_def py_or_def example_spaced_vpc_def)
  have d: "vpc_ecs_of example_spaced_vpc
             [\<lparr>ecs_cluster_name = ''my-vpc'', cluster_services = []\<rparr>] = []"
    using c by (simp add: vpc_ecs_of_def n)
  have e: "spec_fuzzy_match ''prod_vpc'' ''prodvpc-env''"
    by (simp add: spec_fuzzy_match_def spec_normalize_def py_lower_def lower_char_def)
  have f: "name_match ''prod_vpc'' ''prodvpc-env''"
    by (simp add: name_match_def ecs_name_lower_def py_remove_char_def py_lower_def
          lower_char_def)
  have g: "\<not> beanstalk_match ''prod_vpc''
       \<lparr>environment_name = ''prodvpc-env'', application_name = ''shop''\<rparr>"
    by (simp add: beanstalk_match_def py_remove_char_def py_lower_def lower_char_def)
  show ?thesis by (intro conjI a b c d e f g)
qed

text \<open>
  What the two filters of the detailed generator compute, in terms of substrings:
  the ECS test removes hyphens and underscores and keeps spaces, the Beanstalk test
  removes hyphens only and looks in one direction.
\<close>

lemma name_match_characterisation:
  "(name_match v c \<longleftrightarrow>
     (let vn = filter (\<lambda>x. x \<noteq> CHR ''-'' \<and> x \<noteq> CHR ''_'') (py_lower v);
          cn = filter (\<lambda>x. x \<noteq> CHR ''-'' \<and> x \<noteq> CHR ''_'') (py_lower c)
      in sublist cn vn \<or> sublist vn cn \<or>
         (\<exists>part \<in> set (py_split vn). 3 < length part \<and> sublist part cn))) \<and>
   (beanstalk_match v env \<longleftrightarrow>
     (let vn = filter (\<lambda>x. x \<noteq> CHR ''-'') (py_lower v)
      in sublist vn (filter (\<lambda>x. x \<noteq> CHR ''-'') (py_lower (environment_name env))) \<or>
         sublist vn (filter (\<lambda>x. x \<noteq> CHR ''-'') (py_lower (application_name env)))))"
proof -
  have a: "name_match v c \<longleftrightarrow>
     (let vn = filter (\<lambda>x. x \<noteq> CHR ''-'' \<and> x \<noteq> CHR ''_'') (py_lower v);
          cn = filter (\<lambda>x. x \<noteq> CHR ''-'' \<and> x \<noteq> CHR ''_'') (py_lower c)
      in sublist cn vn \<or> sublist vn cn \<or>
         (\<exists>part \<in> set (py_split vn). 3 < length part \<and> sublist part cn))"
    by (auto simp: name_match_def ecs_name_lower_def py_remove_char_def py_in_sublist Let_def
          list_ex_iff conj_commute)
  have b: "beanstalk_match v env \<longleftrightarrow>
     (let vn = filter (\<lambda>x. x \<noteq> CHR ''-'') (py_lower v)
      in sublist vn (filter (\<lambda>x. x \<noteq> CHR ''-'') (py_lower (environment_name env))) \<or>
         sublist vn (filter (\<lambda>x. x \<noteq> CHR ''-'') (py_lower (application_name env))))"
    by (simp add: beanstalk_match_def py_remove_char_def py_in_sublist Let_def)
  from a b show ?thesis by blast
qed

lemma subnet_match_iff:
  "subnet_match ids svcs \<longleftrightarrow> (\<exists>svc \<in> set svcs. \<exists>s \<in> set (svc_subnets svc). s \<in> ids)"
  by (induction svcs) (auto simp: list_ex_iff)

text \<open>
  C5. If some service of an ECS cluster of the region lists a subnet that belongs to
  the VPC, the cluster is in the VPC's filtered ECS set, whatever the names are; the
  cluster and service records have no VPC id field.
\<close>

theorem subnet_match_attributes_cluster:
  assumes "cluster \<in> set ecs_clusters"
    and "svc \<in> set (cluster_services cluster)"
    and "s \<in> set (svc_subnets svc)"
    and "s \<in> vpc_subnet_ids_of vpc_data"
  shows "cluster \<in> set (vpc_ecs_of vpc_data ecs_clusters)"
  using assms by (auto simp: vpc_ecs_of_def subnet_match_iff)

theorem subnet_match_attributes_cluster_witness:
  "\<not> name_match
       (get_resource_name \<lparr>vpc_id = ''vpc-1'', vpc_name = Some ''main'', vpc_tags = [],
          vpc_subnets = [\<lparr>subnet_id = ''subnet-a''\<rparr>]\<rparr>) ''orders'' \<and>
   \<lparr>ecs_cluster_name = ''orders'',
     cluster_services = [\<lparr>service_name = ''api'', svc_subnets = [''subnet-a'']\<rparr>]\<rparr>
     \<in> set (vpc_ecs_of
          \<lparr>vpc_id = ''vpc-1'', vpc_name = Some ''main'', vpc_tags = [],
            vpc_subnets = [\<lparr>subnet_id = ''subnet-a''\<rparr>]\<rparr>
          [\<lparr>ecs_cluster_name = ''orders'',
            cluster_services = [\<lparr>service_name = ''api'', svc_subnets = [''subnet-a'']\<rparr>]\<rparr>])"
proof -
  have n: "\<not> name_match
       (get_resource_name \<lparr>vpc_id = ''vpc-1'', vpc_name = Some ''main'', vpc_tags = [],
          vpc_subnets = [\<lparr>subnet_id = ''subnet-a''\<rparr>]\<rparr>) ''orders''"
    by (simp add: get_resource_name_def py_or_def name_match_def ecs_name_lower_def
          py_remove_char_def py_lower_def lower_char_def py_split_def is_space_def)
  have m: "\<lparr>ecs_cluster_name = ''orders'',
     cluster_services = [\<lparr>service_name = ''api'', svc_subnets = [''subnet-a'']\<rparr>]\<rparr>
     \<in> set (vpc_ecs_of
          \<lparr>vpc_id = ''vpc-1'', vpc_name = Some ''main'', vpc_tags = [],
            vpc_subnets = [\<lparr>subnet_id = ''subnet-a''\<rparr>]\<rparr>
          [\<lparr>ecs_cluster_name = ''orders'',
            cluster_services = [\<lparr>service_name = ''api'', svc_subnets = [''subnet-a'']\<rparr>]\<rparr>])"
    by (rule subnet_match_attributes_cluster
          [where svc = "\<lparr>service_name = ''api'', svc_subnets = [''subnet-a'']\<rparr>"
             and s = "''subnet-a''"])
       (simp_all add: vpc_subnet_ids_of_def)
  from n m show ?thesis by simp
qed

section \<open>Pods of an EKS worker instance\<close>

lemma total_pods_loop_absent:
  assumes "\<forall>i \<in> set insts. \<exists>ip. ec2_private_ip i = Some ip \<and> pbn (private_dns_of ip region) = None"
  shows "total_pods_loop region pbn insts tot = Inr tot"
  using assms by (induction insts arbitrary: tot) (auto simp: dict_get_list_def)

lemma str_nat_0: "str_nat 0 = ''0''"
  by (simp add: str_nat.simps digit_char_def)

text \<open>
  The lookup itself: for a worker instance with a private IP, the pods are looked up
  under the key \<open>"ip-" + ip with dots replaced by hyphens + "." + region +
  ".compute.internal"\<close> and under no other key; when \<open>pods_by_node\<close> has no such key
  the lookup gives the empty list and the node group's pod count is unchanged; an
  instance that has a name is then rendered with \<open>0 pods\<close> and no pod.
\<close>

lemma pods_lookup_absent_key:
  assumes "ec2_private_ip inst = Some ip"
    and "pbn (private_dns_of ip region) = None"
  shows
    "private_dns_of ip region =
       ''ip-'' @ map (\<lambda>c. if c = CHR ''.'' then CHR ''-'' else c) ip @ ''.'' @ region
         @ ''.compute.internal'' \<and>
     dict_get_list pbn (private_dns_of ip region) = [] \<and>
     total_pods_loop region pbn [inst] tot = Inr tot \<and>
     (\<forall>n. ec2_name inst = Some n \<longrightarrow>
        render_node region pbn inst =
          Inr (format_label n 15 2 @ [CHR 0x0A] @ ip @ [CHR 0x0A] @ ''0 pods'', [])) \<and>
     (\<forall>pbn'. pbn' (private_dns_of ip region) = pbn (private_dns_of ip region) \<longrightarrow>
        render_node region pbn' inst = render_node region pbn inst \<and>
        total_pods_loop region pbn' [inst] tot = total_pods_loop region pbn [inst] tot)"
proof -
  have k: "private_dns_of ip region =
       ''ip-'' @ map (\<lambda>c. if c = CHR ''.'' then CHR ''-'' else c) ip @ ''.'' @ region
         @ ''.compute.internal''"
    by (simp add: private_dns_of_def py_replace_char_def)
  have g: "dict_get_list pbn (private_dns_of ip region) = []"
    using assms(2) by (simp add: dict_get_list_def)
  have t: "total_pods_loop region pbn [inst] tot = Inr tot"
    using assms g by simp
  have r: "\<forall>n. ec2_name inst = Some n \<longrightarrow>
        render_node region pbn inst =
          Inr (format_label n 15 2 @ [CHR 0x0A] @ ip @ [CHR 0x0A] @ ''0 pods'', [])"
    using assms(1) g by (simp add: render_node_def Let_def app_pods_of_def str_nat_0)
  have d: "\<forall>pbn'. pbn' (private_dns_of ip region) = pbn (private_dns_of ip region) \<longrightarrow>
        render_node region pbn' inst = render_node region pbn inst \<and>
        total_pods_loop region pbn' [inst] tot = total_pods_loop region pbn [inst] tot"
    using assms(1)
    by (simp add: render_node_def Let_def dict_get_list_def split: option.splits)
  from k g t r d show ?thesis by blast
qed

lemma pods_lookup_absent_key_example:
  "ec2_private_ip example_worker = Some ''10.0.1.5'' \<and>
   example_pods_by_node (private_dns_of ''10.0.1.5'' ''us-east-1'') = None \<and>
   private_dns_of ''10.0.1.5'' ''us-east-1'' = ''ip-10-0-1-5.us-east-1.compute.internal'' \<and>
   total_pods_loop ''us-east-1'' example_pods_by_node [example_worker] 0 = Inr 0 \<and>
   render_node ''us-east-1'' example_pods_by_node example_worker
     = Inr (''worker'' @ [CHR 0x0A] @ ''10.0.1.5'' @ [CHR 0x0A] @ ''0 pods'', [])"
proof -
  have a: "ec2_private_ip example_worker = Some ''10.0.1.5''"
    by (simp add: example_worker_def)
  have b: "example_pods_by_node (private_dns_of ''10.0.1.5'' ''us-east-1'') = None"
    by (simp add: private_dns_of_def example_pods_by_node_def)
  have n: "ec2_name example_worker = Some ''worker''"
    by (simp add: example_worker_def)
  have f: "format_label ''worker'' 15 2 = ''worker''" by (simp add: format_label_def)
  have k: "private_dns_of ''10.0.1.5'' ''us-east-1'' = ''ip-10-0-1-5.us-east-1.compute.internal''"
    by (simp add: private_dns_of_def py_replace_char_def)
  note th = pods_lookup_absent_key
         [where inst = example_worker and ip = "''10.0.1.5''" and pbn = example_pods_by_node
            and region = "''us-east-1''" and tot = 0, OF a b]
  from th have t: "total_pods_loop ''us-east-1'' example_pods_by_node [example_worker] 0 = Inr 0"
    by blast
  from th n have "render_node ''us-east-1'' example_pods_by_node example_worker
     = Inr (format_label ''worker'' 15 2 @ [CHR 0x0A] @ ''10.0.1.5'' @ [CHR 0x0A] @ ''0 pods'', [])"
    by blast
  with f have r: "render_node ''us-east-1'' example_pods_by_node example_worker
     = Inr (''worker'' @ [CHR 0x0A] @ ''10.0.1.5'' @ [CHR 0x0A] @ ''0 pods'', [])"
    by simp
  show ?thesis by (intro conjI a b k t r)
qed


section \<open>The orchestrator: proofs\<close>

lemma collect_one_other: "k \<noteq> key \<Longrightarrow> collect_one sel key outcome d rd k = rd k"
  by (simp add: collect_one_def split: sum.splits)

lemma collect_one_failed:
  "sel \<Longrightarrow> isl outcome \<Longrightarrow> collect_one sel key outcome d rd key = Some d"
  by (auto simp: collect_one_def split: sum.splits)

lemma collect_one_present: "sel \<Longrightarrow> collect_one sel key outcome d rd key \<noteq> None"
  by (simp add: collect_one_def split: sum.splits)

lemma collect_one_dom: "dom (collect_one sel key outcome d rd) \<subseteq> insert key (dom rd)"
  by (auto simp: collect_one_def split: sum.splits if_splits)

lemma collect_vpc_ec2_other:
  "k \<noteq> ''vpcs'' \<Longrightarrow> k \<noteq> ''ec2_instances'' \<Longrightarrow> collect_vpc_ec2 c ca sv rd k = rd k"
  by (simp add: collect_vpc_ec2_def split: sum.splits)

lemma collect_vpc_ec2_dom:
  "dom (collect_vpc_ec2 c ca sv rd) \<subseteq> insert ''vpcs'' (insert ''ec2_instances'' (dom rd))"
  by (auto simp: collect_vpc_ec2_def split: sum.splits if_splits)

lemma collect_vpc_ec2_vpcs:
  "ca \<or> ''vpc'' \<in> set sv \<Longrightarrow> collect_vpc_ec2 c ca sv rd ''vpcs'' \<noteq> None"
  "ca \<or> ''vpc'' \<in> set sv \<Longrightarrow> isl (vpc_collect c) \<Longrightarrow> collect_vpc_ec2 c ca sv rd ''vpcs'' = Some (JList [])"
  by (auto simp: collect_vpc_ec2_def split: sum.splits)

lemma collect_vpc_ec2_ec2:
  "ca \<or> ''ec2'' \<in> set sv \<Longrightarrow> collect_vpc_ec2 c ca sv rd ''ec2_instances'' \<noteq> None"
  "ca \<or> ''ec2'' \<in> set sv \<Longrightarrow> isl (vpc_collect c) \<or> isl (ec2_collect c) \<Longrightarrow>
     collect_vpc_ec2 c ca sv rd ''ec2_instances'' = Some (JList [])"
  by (auto simp: collect_vpc_ec2_def split: sum.splits)

lemmas crr_simps = collect_region_resources_def Let_def collect_one_other collect_vpc_ec2_other

lemma crr_vpcs:
  "''all'' \<in> set sv \<or> ''vpc'' \<in> set sv \<Longrightarrow>
     collect_region_resources c r t sv ''vpcs'' \<noteq> None \<and>
     (isl (vpc_collect c) \<longrightarrow> collect_region_resources c r t sv ''vpcs'' = Some (JList []))"
  by (simp add: crr_simps collect_vpc_ec2_vpcs)

lemma crr_ec2:
  "''all'' \<in> set sv \<or> ''ec2'' \<in> set sv \<Longrightarrow>
     collect_region_resources c r t sv ''ec2_instances'' \<noteq> None \<and>
     (isl (vpc_collect c) \<or> isl (ec2_collect c) \<longrightarrow>
        collect_region_resources c r t sv ''ec2_instances'' = Some (JList []))"
  by (simp add: crr_simps collect_vpc_ec2_ec2)

lemma crr_ecs:
  "''all'' \<in> set sv \<or> ''ecs'' \<in> set sv \<Longrightarrow>
     collect_region_resources c r t sv ''ecs_clusters'' \<noteq> None \<and>
     (isl (ecs_collect c) \<longrightarrow> collect_region_resources c r t sv ''ecs_clusters'' = Some (JList []))"
  by (simp add: crr_simps collect_one_present collect_one_failed)

lemma crr_eks:
  "''all'' \<in> set sv \<or> ''eks'' \<in> set sv \<Longrightarrow>
     collect_region_resources c r t sv ''eks_clusters'' \<noteq> None \<and>
     (isl (eks_collect c) \<longrightarrow> collect_region_resources c r t sv ''eks_clusters'' = Some (JList []))"
  by (simp add: crr_simps collect_one_present collect_one_failed)

lemma crr_rds:
  "''all'' \<in> set sv \<or> ''rds'' \<in> set sv \<Longrightarrow>
     collect_region_resources c r t sv ''rds'' \<noteq> None \<and>
     (isl (rds_collect c) \<longrightarrow> collect_region_resources c r t sv ''rds'' =
        Some (JDict [(''instances'', JList []), (''clusters'', JList [])]))"
  by (simp add: crr_simps collect_one_present collect_one_failed empty_lists_def)

lemma crr_other:
  "k \<notin> {''region'', ''collected_at''} \<union> resource_keys \<Longrightarrow>
     collect_region_resources c r t sv k = None"
  by (simp add: crr_simps resource_keys_def)

lemma crr_dom:
  "dom (collect_region_resources c r t sv) \<subseteq> {''region'', ''collected_at''} \<union> resource_keys"
proof
  fix k
  assume "k \<in> dom (collect_region_resources c r t sv)"
  then have "collect_region_resources c r t sv k \<noteq> None" by (simp add: dom_def)
  with crr_other [of k c r t sv]
  show "k \<in> {''region'', ''collected_at''} \<union> resource_keys" by blast
qed

lemma crr_region: "collect_region_resources c r t sv ''region'' = Some (JStr r)"
  by (simp add: crr_simps)

lemma crr_no_error: "collect_region_resources c r t sv ''error'' = None"
  by (rule crr_other) (simp add: resource_keys_def)

lemma main_region_loop_lookup:
  "main_region_loop rs t sv regions acc region =
     (if region \<in> set regions then Some (region_entry rs t sv region) else acc region)"
  by (induction regions arbitrary: acc) auto

lemma region_entry_shape:
  "region_entry rs t sv region ''region'' = Some (JStr region) \<and>
   ((region_entry rs t sv region ''error'' = None \<and>
     dom (region_entry rs t sv region) \<subseteq> {''region'', ''collected_at''} \<union> resource_keys) \<or>
    (dom (region_entry rs t sv region) = {''region'', ''error''} \<and>
     (\<exists>msg. region_entry rs t sv region ''error'' = Some (JStr msg))))"
proof (cases "rs region")
  case (Inl e)
  then show ?thesis by (auto simp: region_entry_def)
next
  case (Inr c)
  then show ?thesis
    using crr_dom [of c region t sv] by (simp add: region_entry_def crr_region crr_no_error)
qed

lemma consume_regions_sound:
  "item \<in> set (consume_regions keys items) \<Longrightarrow>
     \<exists>d. (fst item, d) \<in> set items \<and> d ''error'' = None \<and> snd item = read_keys d keys"
  by (induction keys items rule: consume_regions.induct) (auto split: if_splits)

lemma consume_regions_filter:
  "consume_regions keys items =
     map (\<lambda>item. (fst item, read_keys (snd item) keys))
       (filter (\<lambda>item. snd item ''error'' = None) items)"
proof (induction keys items rule: consume_regions.induct)
  case (1 keys)
  show ?case by simp
next
  case (2 keys region_name region_data rest)
  then show ?case by (cases "region_data ''error''") simp_all
qed

lemma crr_elasticache:
  "''all'' \<in> set sv \<or> ''elasticache'' \<in> set sv \<Longrightarrow>
     collect_region_resources c r t sv ''elasticache'' \<noteq> None \<and>
     (isl (elasticache_collect c) \<longrightarrow> collect_region_resources c r t sv ''elasticache'' =
        Some (JDict [(''clusters'', JList []), (''replication_groups'', JList []),
                     (''serverless_caches'', JList [])]))"
  by (simp add: crr_simps collect_one_present collect_one_failed empty_lists_def)

lemma crr_elb:
  "''all'' \<in> set sv \<or> ''elb'' \<in> set sv \<Longrightarrow>
     collect_region_resources c r t sv ''load_balancers'' \<noteq> None \<and>
     (isl (elb_collect c) \<longrightarrow> collect_region_resources c r t sv ''load_balancers'' =
        Some (JDict [(''application_load_balancers'', JList []),
                     (''network_load_balancers'', JList []),
                     (''classic_load_balancers'', JList []), (''target_groups'', JList [])]))"
  by (simp add: crr_simps collect_one_present collect_one_failed empty_lists_def)

lemma crr_elasticbeanstalk:
  "''all'' \<in> set sv \<or> ''elasticbeanstalk'' \<in> set sv \<Longrightarrow>
     collect_region_resources c r t sv ''elasticbeanstalk'' \<noteq> None \<and>
     (isl (elasticbeanstalk_collect c) \<longrightarrow>
        collect_region_resources c r t sv ''elasticbeanstalk'' =
        Some (JDict [(''applications'', JList []), (''environments'', JList [])]))"
  by (simp add: crr_simps collect_one_present collect_one_failed empty_lists_def)

lemma crr_redshift:
  "''all'' \<in> set sv \<or> ''redshift'' \<in> set sv \<Longrightarrow>
     collect_region_resources c r t sv ''redshift'' \<noteq> None \<and>
     (isl (redshift_collect c) \<longrightarrow> collect_region_resources c r t sv ''redshift'' =
        Some (JDict [(''clusters'', JList []), (''serverless_workgroups'', JList []),
                     (''serverless_namespaces'', JList [])]))"
  by (simp add: crr_simps collect_one_present collect_one_failed empty_lists_def)

text \<open>
  C2. For every selected service of a region the entry returned by
  \<open>collect_region_resources\<close> has the service's key, and when the service's collection
  raises, the key is bound to the empty default of its shape: the empty list for
  \<open>vpcs\<close>, \<open>ec2_instances\<close>, \<open>ecs_clusters\<close> and \<open>eks_clusters\<close>, a dictionary of
  empty lists for \<open>rds\<close>, \<open>elasticache\<close>, \<open>load_balancers\<close>, \<open>elasticbeanstalk\<close>
  and \<open>redshift\<close>.
\<close>

theorem failed_collection_keeps_key:
  "(service_selected sv ''vpc'' \<longrightarrow>
      collect_region_resources c r t sv ''vpcs'' \<noteq> None \<and>
      (isl (vpc_collect c) \<longrightarrow> collect_region_resources c r t sv ''vpcs'' = Some (JList []))) \<and>
   (service_selected sv ''ec2'' \<longrightarrow>
      collect_region_resources c r t sv ''ec2_instances'' \<noteq> None \<and>
      (isl (vpc_collect c) \<or> isl (ec2_collect c) \<longrightarrow>
         collect_region_resources c r t sv ''ec2_instances'' = Some (JList []))) \<and>
   (service_selected sv ''ecs'' \<longrightarrow>
      collect_region_resources c r t sv ''ecs_clusters'' \<noteq> None \<and>
      (isl (ecs_collect c) \<longrightarrow>
         collect_region_resources c r t sv ''ecs_clusters'' = Some (JList []))) \<and>
   (service_selected sv ''eks'' \<longrightarrow>
      collect_region_resources c r t sv ''eks_clusters'' \<noteq> None \<and>
      (isl (eks_collect c) \<longrightarrow>
         collect_region_resources c r t sv ''eks_clusters'' = Some (JList []))) \<and>
   (service_selected sv ''rds'' \<longrightarrow>
      collect_region_resources c r t sv ''rds'' \<noteq> None \<and>
      (isl (rds_collect c) \<longrightarrow> collect_region_resources c r t sv ''rds'' =
         Some (JDict [(''instances'', JList []), (''clusters'', JList [])]))) \<and>
   (service_selected sv ''elasticache'' \<longrightarrow>
      collect_region_resources c r t sv ''elasticache'' \<noteq> None \<and>
      (isl (elasticache_collect c) \<longrightarrow> collect_region_resources c r t sv ''elasticache'' =
         Some (JDict [(''clusters'', JList []), (''replication_groups'', JList []),
                      (''serverless_caches'', JList [])]))) \<and>
   (service_selected sv ''elb'' \<longrightarrow>
      collect_region_resources c r t sv ''load_balancers'' \<noteq> None \<and>
      (isl (elb_collect c) \<longrightarrow> collect_region_resources c r t sv ''load_balancers'' =
         Some (JDict [(''application_load_balancers'', JList []),
                      (''network_load_balancers'', JList []),
                      (''classic_load_balancers'', JList []), (''target_groups'', JList [])]))) \<and>
   (service_selected sv ''elasticbeanstalk'' \<longrightarrow>
      collect_region_resources c r t sv ''elasticbeanstalk'' \<noteq> None \<and>
      (isl (elasticbeanstalk_collect c) \<longrightarrow>
         collect_region_resources c r t sv ''elasticbeanstalk'' =
         Some (JDict [(''applications'', JList []), (''environments'', JList [])]))) \<and>
   (service_selected sv ''redshift'' \<longrightarrow>
      collect_region_resources c r t sv ''redshift'' \<noteq> None \<and>
      (isl (redshift_collect c) \<longrightarrow> collect_region_resources c r t sv ''redshift'' =
         Some (JDict [(''clusters'', JList []), (''serverless_workgroups'', JList []),
                      (''serverless_namespaces'', JList [])])))"
  unfolding service_selected_def
  using crr_vpcs [of sv c r t] crr_ec2 [of sv c r t] crr_ecs [of sv c r t] crr_eks [of sv c r t]
    crr_rds [of sv c r t] crr_elasticache [of sv c r t] crr_elb [of sv c r t]
    crr_elasticbeanstalk [of sv c r t] crr_redshift [of sv c r t]
  by blast

theorem failed_collection_keeps_key_witness:
  "service_selected [''ecs'', ''rds''] ''ecs'' \<and> service_selected [''ecs'', ''rds''] ''rds'' \<and>
   isl (ecs_collect example_collectors) \<and> isl (rds_collect example_collectors) \<and>
   collect_region_resources example_collectors ''us-east-1'' ''2024-01-01T00:00:00+00:00''
     [''ecs'', ''rds''] ''ecs_clusters'' = Some (JList []) \<and>
   collect_region_resources example_collectors ''us-east-1'' ''2024-01-01T00:00:00+00:00''
     [''ecs'', ''rds''] ''rds'' = Some (JDict [(''instances'', JList []), (''clusters'', JList [])])"
proof -
  have s: "service_selected [''ecs'', ''rds''] ''ecs''" "service_selected [''ecs'', ''rds''] ''rds''"
    by (simp_all add: service_selected_def)
  have f: "isl (ecs_collect example_collectors)" "isl (rds_collect example_collectors)"
    by (simp_all add: example_collectors_def)
  note th = failed_collection_keeps_key
    [of "[''ecs'', ''rds'']" example_collectors "''us-east-1''" "''2024-01-01T00:00:00+00:00''"]
  from th s(1) f(1) have a:
    "collect_region_resources example_collectors ''us-east-1'' ''2024-01-01T00:00:00+00:00''
       [''ecs'', ''rds''] ''ecs_clusters'' = Some (JList [])"
    by blast
  from th s(2) f(2) have b:
    "collect_region_resources example_collectors ''us-east-1'' ''2024-01-01T00:00:00+00:00''
       [''ecs'', ''rds''] ''rds'' = Some (JDict [(''instances'', JList []), (''clusters'', JList [])])"
    by blast
  show ?thesis by (intro conjI s f a b)
qed

text \<open>
  C6. The entry that \<open>main\<close> stores for a region is the one computed for that region,
  and it is either an entry without an \<open>error\<close> key whose keys are \<open>region\<close>,
  \<open>collected_at\<close> and resource collections, or exactly \<open>{region, error}\<close> with an
  error string. Every consumer reads values only from entries without an \<open>error\<close> key.
\<close>

theorem region_entries_exclusive:
  "(\<forall>region \<in> set regions.
      main_region_loop rs t sv regions Map.empty region = Some (region_entry rs t sv region)) \<and>
   (\<forall>region. region_entry rs t sv region ''region'' = Some (JStr region) \<and>
      ((region_entry rs t sv region ''error'' = None \<and>
        dom (region_entry rs t sv region) \<subseteq> {''region'', ''collected_at''} \<union> resource_keys) \<or>
       (dom (region_entry rs t sv region) = {''region'', ''error''} \<and>
        (\<exists>msg. region_entry rs t sv region ''error'' = Some (JStr msg))))) \<and>
   (\<forall>item \<in> set (generate_overview_diagram_regions items).
      \<exists>d. (fst item, d) \<in> set items \<and> d ''error'' = None \<and> snd item = read_keys d overview_keys) \<and>
   (\<forall>item \<in> set (diagram_generator_main_regions items).
      \<exists>d. (fst item, d) \<in> set items \<and> d ''error'' = None \<and> snd item = read_keys d overview_keys) \<and>
   (\<forall>item \<in> set (diagram_generator_detailed_main_regions items).
      \<exists>d. (fst item, d) \<in> set items \<and> d ''error'' = None \<and> snd item = read_keys d detailed_keys) \<and>
   (\<forall>item \<in> set (diagram_generator_drawio_main_regions items).
      \<exists>d. (fst item, d) \<in> set items \<and> d ''error'' = None \<and> snd item = read_keys d detailed_keys) \<and>
   (\<forall>item \<in> set (get_eks_clusters_from_inventory_regions items).
      \<exists>d. (fst item, d) \<in> set items \<and> d ''error'' = None \<and>
          snd item = read_keys d [(''eks_clusters'', JList [])])"
proof -
  have a: "\<forall>region \<in> set regions.
      main_region_loop rs t sv regions Map.empty region = Some (region_entry rs t sv region)"
    by (simp add: main_region_loop_lookup)
  have b: "\<forall>region. region_entry rs t sv region ''region'' = Some (JStr region) \<and>
      ((region_entry rs t sv region ''error'' = None \<and>
        dom (region_entry rs t sv region) \<subseteq> {''region'', ''collected_at''} \<union> resource_keys) \<or>
       (dom (region_entry rs t sv region) = {''region'', ''error''} \<and>
        (\<exists>msg. region_entry rs t sv region ''error'' = Some (JStr msg))))"
    using region_entry_shape [of rs t sv] by blast
  have c: "\<And>keys. \<forall>item \<in> set (consume_regions keys items).
      \<exists>d. (fst item, d) \<in> set items \<and> d ''error'' = None \<and> snd item = read_keys d keys"
    using consume_regions_sound by blast
  show ?thesis
    unfolding generate_overview_diagram_regions_def diagram_generator_main_regions_def
      diagram_generator_detailed_main_regions_def diagram_generator_drawio_main_regions_def
      get_eks_clusters_from_inventory_regions_def
    by (intro conjI a b c)
qed

theorem region_entries_exclusive_witness:
  "''eu-west-1'' \<in> set [''us-east-1'', ''eu-west-1''] \<and>
   main_region_loop example_sessions ''t'' [''all''] [''us-east-1'', ''eu-west-1''] Map.empty
     ''eu-west-1'' = Some [''region'' \<mapsto> JStr ''eu-west-1'',
                           ''error'' \<mapsto> JStr ''InvalidClientTokenId''] \<and>
   diagram_generator_detailed_main_regions
     [(''eu-west-1'', [''region'' \<mapsto> JStr ''eu-west-1'',
                       ''error'' \<mapsto> JStr ''InvalidClientTokenId'']),
      (''us-east-1'', [''region'' \<mapsto> JStr ''us-east-1'', ''vpcs'' \<mapsto> JList []])]
     = [(''us-east-1'', read_keys [''region'' \<mapsto> JStr ''us-east-1'', ''vpcs'' \<mapsto> JList []]
                           detailed_keys)]"
proof -
  have m: "''eu-west-1'' \<in> set [''us-east-1'', ''eu-west-1'']" by simp
  note th = region_entries_exclusive
    [of "[''us-east-1'', ''eu-west-1'']" example_sessions "''t''" "[''all'']" "[]"]
  from th m have "main_region_loop example_sessions ''t'' [''all''] [''us-east-1'', ''eu-west-1'']
      Map.empty ''eu-west-1'' = Some (region_entry example_sessions ''t'' [''all''] ''eu-west-1'')"
    by blast
  then have a: "main_region_loop example_sessions ''t'' [''all''] [''us-east-1'', ''eu-west-1'']
      Map.empty ''eu-west-1'' = Some [''region'' \<mapsto> JStr ''eu-west-1'',
                           ''error'' \<mapsto> JStr ''InvalidClientTokenId'']"
    by (simp add: region_entry_def example_sessions_def error_str_def)
  have b: "diagram_generator_detailed_main_regions
     [(''eu-west-1'', [''region'' \<mapsto> JStr ''eu-west-1'',
                       ''error'' \<mapsto> JStr ''InvalidClientTokenId'']),
      (''us-east-1'', [''region'' \<mapsto> JStr ''us-east-1'', ''vpcs'' \<mapsto> JList []])]
     = [(''us-east-1'', read_keys [''region'' \<mapsto> JStr ''us-east-1'', ''vpcs'' \<mapsto> JList []]
                           detailed_keys)]"
    by (simp add: diagram_generator_detailed_main_regions_def)
  show ?thesis by (intro conjI m a b)
qed

end
